theory Spec2Isabelle
  imports Complex_Main
begin

section \<open>Shared vocabulary\<close>

text \<open>
  Both services keep their state in a keyed store (Redis): one hash per target or agent
  and one list per target or agent. The status strings written by the code
  (\<^verbatim>\<open>"healthy"\<close>, \<^verbatim>\<open>"degraded"\<close>, \<^verbatim>\<open>"down"\<close>, \<^verbatim>\<open>"suspicious"\<close>,
  \<^verbatim>\<open>"stopped"\<close>, and the read default \<^verbatim>\<open>"unknown"\<close>) are the constructors of one
  enumeration. Timestamps are integers (microseconds), and the clock reads of one call
  are a single parameter \<open>now\<close>. Calls to the store and to the notification sink do
  not fail in the model.

  A Python float is modelled by the real number it stands for. The arithmetic on
  floats is not exact, and the one place where its error can be seen is the text of the
  uptime computed by a health check; it is modelled there (see \<open>fmt2\<close>).
\<close>

datatype status = Unknown | Healthy | Degraded | Down | Suspicious | Stopped

text \<open>
  Redis \<^verbatim>\<open>LPUSH key v\<close> puts \<open>v\<close> at the head of the list; \<^verbatim>\<open>LTRIM key start stop\<close>
  keeps the elements at the indices \<open>start..stop\<close> (both inclusive, here never
  negative).
\<close>

definition lpush :: "'a \<Rightarrow> 'a list \<Rightarrow> 'a list" where
  "lpush v xs = v # xs"

definition ltrim :: "'a list \<Rightarrow> nat \<Rightarrow> nat \<Rightarrow> 'a list" where
  "ltrim xs start stop = take (Suc stop - start) (drop start xs)"

text \<open>
  The integer nearest to \<open>y\<close>; when \<open>y\<close> lies halfway between two integers,
  \<open>tie_up\<close> chooses the upper one.
\<close>

definition round_nearest :: "bool \<Rightarrow> real \<Rightarrow> int" where
  "round_nearest tie_up y =
     (let f = \<lfloor>y\<rfloor>; d = y - of_int f
      in if d < 1 / 2 then f else if 1 / 2 < d then f + 1
         else if tie_up then f + 1 else f)"

text \<open>
  The text \<^verbatim>\<open>f"{v:.2f}"\<close>, read back with \<^verbatim>\<open>float(...)\<close>, of the float \<open>v\<close> that
  the code computes for an expression whose exact value is \<open>x\<close>. The format gives
  the decimal with two fractional digits nearest to \<open>v\<close>. The float \<open>v\<close> is within
  a few units of its last binary place of \<open>x\<close> (below \<^verbatim>\<open>1e-12\<close> for the values
  here), so the text is the one of \<open>x\<close> unless \<open>x\<close> lies halfway between two
  neighbours; there \<open>v\<close> lies beside \<open>x\<close>, or on it, and the text is one of the
  two neighbours: \<open>tie_up\<close> says that it is the upper one. The flag is an input of
  the model, as the probe is, and every statement below holds for both of its values.
\<close>

definition fmt2 :: "bool \<Rightarrow> real \<Rightarrow> real" where
  "fmt2 tie_up x = of_int (round_nearest tie_up (x * 100)) / 100"

text \<open>
  The same text for a float that is formatted as it is, without arithmetic before:
  its exact value is rounded, a tie going to the even last digit.
\<close>

definition fmt2_exact :: "real \<Rightarrow> real" where
  "fmt2_exact x = fmt2 (odd \<lfloor>x * 100\<rfloor>) x"

section \<open>Worker Health Monitor\<close>

record worker =
  name :: string
  url :: string
  category :: string

definition WORKERS :: "worker list" where
  "WORKERS =
    [\<lparr>name = ''hub'', url = ''https://jimbo77.com/health'', category = ''web''\<rparr>,
     \<lparr>name = ''pumo-api'',
      url = ''https://jimbo-like-pumo-api.stolarnia-ams.workers.dev/health'',
      category = ''api''\<rparr>,
     \<lparr>name = ''zen-browser'', url = ''https://zen-bro-wser.org/health'',
      category = ''web''\<rparr>,
     \<lparr>name = ''blog'', url = ''https://my-bonzo-ai-blog.pages.dev/health'',
      category = ''web''\<rparr>,
     \<lparr>name = ''luc-de-zen-on'', url = ''https://luc-de-zen-on.pages.dev/health'',
      category = ''web''\<rparr>,
     \<lparr>name = ''agents-orchestrator'', url = ''https://orchestrator.jimbo77.com/health'',
      category = ''orchestration''\<rparr>]"

text \<open>
  The hash \<^verbatim>\<open>worker:status:{name}\<close>. Every write sets all five fields, so a hash
  either is absent or holds a whole record.
\<close>

record worker_status =
  status :: status
  response_time_ms :: real
  last_check :: int
  uptime_percent :: real
  error :: string

text \<open>One element of the list \<^verbatim>\<open>worker:history:{name}\<close>.\<close>

record history_entry =
  timestamp :: int
  entry_status :: status
  entry_response_time_ms :: real
  status_code :: int

text \<open>
  What \<^verbatim>\<open>send_slack_notification\<close> is called with. The text of a message is
  determined by the values kept in its constructor.
\<close>

datatype notification =
    Worker_down string int
  | Worker_unreachable string string
  | Auto_restarting string

record store =
  statuses :: "string \<rightharpoonup> worker_status"
  history :: "string \<Rightarrow> history_entry list"
  notifications :: "notification list"

definition empty_store :: store where
  "empty_store = \<lparr>statuses = Map.empty, history = (\<lambda>_. []), notifications = []\<rparr>"

text \<open>
  The outcome of \<^verbatim>\<open>client.get(worker_url)\<close>: it raised \<open>e\<close>, or it returned a
  response with a status code, \<open>response_time_ms\<close> being the measured time.

  A check takes, besides the probe, the time \<open>now\<close> and the flag \<open>tie_up\<close> of the
  float arithmetic of its \<open>new_uptime\<close> (see \<open>fmt2\<close>). The stored uptimes have
  two decimals, so the exact value of \<open>new_uptime\<close> is a multiple of 0.0005: it is
  a tie or at least 0.0005 away from one.
\<close>

datatype probe = Raised string | Responded int real

definition send_alert :: "notification \<Rightarrow> store \<Rightarrow> store" where
  "send_alert n s = s\<lparr>notifications := notifications s @ [n]\<rparr>"

definition restart_worker :: "string \<Rightarrow> store \<Rightarrow> store" where
  "restart_worker worker_name s =
     s\<lparr>notifications := notifications s @ [Auto_restarting worker_name]\<rparr>"

definition determine_status :: "int \<Rightarrow> real \<Rightarrow> status" where
  "determine_status code rt =
     (if code = 200 \<and> rt < 1000 then Healthy
      else if code = 200 \<and> rt < 3000 then Degraded
      else Down)"

definition prev_uptime :: "store \<Rightarrow> string \<Rightarrow> real" where
  "prev_uptime s worker_name =
     (case statuses s worker_name of
        None \<Rightarrow> 100.0
      | Some prev_data \<Rightarrow> uptime_percent prev_data)"

definition check_worker_health ::
  "int \<Rightarrow> bool \<Rightarrow> probe \<Rightarrow> worker \<Rightarrow> store \<Rightarrow> store" where
  "check_worker_health now tie_up p w s =
     (let worker_name = name w in
      case p of
        Responded code rt \<Rightarrow>
          (let st = determine_status code rt;
               is_up = (if st \<in> {Healthy, Degraded} then 1.0 else 0.0);
               new_uptime = prev_uptime s worker_name * 0.95 + is_up * 5.0;
               s1 = s\<lparr>statuses := (statuses s)(worker_name \<mapsto>
                      \<lparr>status = st, response_time_ms = fmt2_exact rt, last_check = now,
                       uptime_percent = fmt2 tie_up new_uptime, error = ''''\<rparr>)\<rparr>;
               history_entry = \<lparr>timestamp = now, entry_status = st,
                                entry_response_time_ms = rt, status_code = code\<rparr>;
               s2 = s1\<lparr>history := (history s1)(worker_name :=
                      ltrim (lpush history_entry (history s1 worker_name)) 0 99)\<rparr>
           in if st = Down
              then restart_worker worker_name (send_alert (Worker_down worker_name code) s2)
              else s2)
      | Raised e \<Rightarrow>
          (let new_uptime = prev_uptime s worker_name * 0.95;
               s1 = s\<lparr>statuses := (statuses s)(worker_name \<mapsto>
                      \<lparr>status = Down, response_time_ms = 0, last_check = now,
                       uptime_percent = fmt2 tie_up new_uptime, error = e\<rparr>)\<rparr>
           in restart_worker worker_name (send_alert (Worker_unreachable worker_name e) s1)))"

text \<open>
  \<^verbatim>\<open>perform_health_checks\<close> starts one \<^verbatim>\<open>check_worker_health\<close> per worker and gathers
  them; the periodic loop and \<^verbatim>\<open>POST /check/all\<close> repeat it. Between reading the
  previous uptime and writing the record a check does not yield, so the store passes
  through the checks one at a time, in the order in which their probes complete. A run
  is the list of the checks in that order.
\<close>

fun run_checks :: "(int \<times> bool \<times> probe \<times> worker) list \<Rightarrow> store \<Rightarrow> store" where
  "run_checks [] s = s"
| "run_checks ((now, tie_up, p, w) # cs) s =
     run_checks cs (check_worker_health now tie_up p w s)"

definition perform_health_checks ::
  "int \<Rightarrow> (worker \<Rightarrow> bool) \<Rightarrow> (worker \<Rightarrow> probe) \<Rightarrow> store \<Rightarrow> store" where
  "perform_health_checks now ties probes s =
     run_checks (map (\<lambda>w. (now, ties w, probes w, w)) WORKERS) s"

text \<open>
  \<^verbatim>\<open>GET /metrics\<close>: the loop over the workers with its six accumulators. The list
  of workers is a parameter, so that the branch for an empty list is a case of the
  model; the service passes \<open>WORKERS\<close>.
\<close>

record health_metrics =
  total_workers :: nat
  healthy :: nat
  degraded :: nat
  down :: nat
  avg_response_time_ms :: real
  avg_uptime_percent :: real

record metrics_acc =
  acc_healthy :: nat
  acc_degraded :: nat
  acc_down :: nat
  total_response_time :: real
  response_count :: nat
  total_uptime :: real

definition metrics_step :: "store \<Rightarrow> worker \<Rightarrow> metrics_acc \<Rightarrow> metrics_acc" where
  "metrics_step s w acc =
     (case statuses s (name w) of
        None \<Rightarrow> acc
      | Some status_data \<Rightarrow>
          (let st = status status_data;
               acc1 = (if st = Healthy then acc\<lparr>acc_healthy := acc_healthy acc + 1\<rparr>
                       else if st = Degraded then acc\<lparr>acc_degraded := acc_degraded acc + 1\<rparr>
                       else if st = Down then acc\<lparr>acc_down := acc_down acc + 1\<rparr>
                       else acc);
               rt = response_time_ms status_data;
               acc2 = (if rt > 0
                       then acc1\<lparr>total_response_time := total_response_time acc1 + rt,
                                 response_count := response_count acc1 + 1\<rparr>
                       else acc1)
           in acc2\<lparr>total_uptime := total_uptime acc2 + uptime_percent status_data\<rparr>))"

definition get_metrics :: "worker list \<Rightarrow> store \<Rightarrow> health_metrics" where
  "get_metrics workers s =
     (let acc = fold (metrics_step s) workers
                  \<lparr>acc_healthy = 0, acc_degraded = 0, acc_down = 0,
                   total_response_time = 0.0, response_count = 0, total_uptime = 0.0\<rparr>;
          avg_response_time =
            (if response_count acc > 0
             then total_response_time acc / real (response_count acc) else 0);
          avg_uptime =
            (if length workers > 0 then total_uptime acc / real (length workers)
             else 100.0)
      in \<lparr>total_workers = length workers, healthy = acc_healthy acc,
          degraded = acc_degraded acc, down = acc_down acc,
          avg_response_time_ms = avg_response_time, avg_uptime_percent = avg_uptime\<rparr>)"

section \<open>Guardian Agent\<close>

record agent =
  agent_name :: string
  agent_url :: string
  agent_type :: string

definition AGENTS :: "agent list" where
  "AGENTS =
    [\<lparr>agent_name = ''deployment-coordinator'',
      agent_url = ''http://deployment-coordinator:6001'', agent_type = ''orchestration''\<rparr>,
     \<lparr>agent_name = ''cost-optimizer'', agent_url = ''http://cost-optimizer:6002'',
      agent_type = ''analytics''\<rparr>,
     \<lparr>agent_name = ''worker-health-monitor'',
      agent_url = ''http://worker-health-monitor:6003'', agent_type = ''monitoring''\<rparr>]"

text \<open>The entries of \<^verbatim>\<open>POLICIES\<close> that the checks read.\<close>

definition max_deployments_per_hour :: nat where
  "max_deployments_per_hour = 10"

definition max_cost_per_day :: real where
  "max_cost_per_day = 10.0"

definition max_failed_health_checks :: int where
  "max_failed_health_checks = 5"

datatype threat = Low | Medium | High | Critical

text \<open>
  The hash \<^verbatim>\<open>guardian:agent:{name}\<close>. Every write sets its three fields together.
\<close>

record agent_status =
  agent_status :: status
  agent_last_check :: int
  threat_level :: threat

text \<open>
  The formatted texts (violation details, alert messages) are kept as the values they
  are formatted from.
\<close>

datatype details =
    Exceeded_deployment_limit nat
  | Daily_cost_exceeds_limit real
  | Workers_are_down int
  | Manually_stopped_by_Guardian

datatype reason =
    Health_check_failed int
  | Unreachable string
  | Deployment_rate_exceeded nat

datatype alert =
    Suspicious_behavior string reason
  | Emergency_stop_executed string

text \<open>One element of the list \<^verbatim>\<open>guardian:violations:{name}\<close>.\<close>

record policy_violation =
  agent :: string
  policy :: string
  severity :: string
  violation_timestamp :: int
  details :: details
  action_taken :: string

record guardian =
  agents :: "string \<rightharpoonup> agent_status"
  violations :: "string \<Rightarrow> policy_violation list"
  alerts :: "(alert \<times> string) list"

definition empty_guardian :: guardian where
  "empty_guardian = \<lparr>agents = Map.empty, violations = (\<lambda>_. []), alerts = []\<rparr>"

text \<open>
  What a request to an agent gives: it raised (also when the body cannot be decoded),
  or it returned a status code and a body, of which the model keeps the field the
  caller reads.
\<close>

datatype 'a reply = Failed string | Reply int 'a

text \<open>
  An element of the \<^verbatim>\<open>deployments\<close> list, as far as it is read: its
  \<^verbatim>\<open>started_at\<close> is missing, is not an ISO date, or is the time \<open>t\<close>.
\<close>

datatype deployment = No_started_at | Bad_started_at | Started_at int

text \<open>
  \<^verbatim>\<open>datetime.fromisoformat(d.get("started_at", "2020-01-01"))\<close>; \<open>None\<close> is the
  ValueError. Times are microseconds since 1970-01-01.
\<close>

definition fromisoformat :: "deployment \<Rightarrow> int option" where
  "fromisoformat d =
     (case d of
        No_started_at \<Rightarrow> Some (1577836800 * 1000000)
      | Bad_started_at \<Rightarrow> None
      | Started_at t \<Rightarrow> Some t)"

definition hours :: "int \<Rightarrow> int" where
  "hours n = n * 3600 * 1000000"

record agent_probe =
  health :: "unit reply"
  deployments :: "deployment list reply"
  costs_daily :: "real reply"
  metrics :: "int reply"

definition send_guardian_alert :: "alert \<Rightarrow> string \<Rightarrow> guardian \<Rightarrow> guardian" where
  "send_guardian_alert message level g = g\<lparr>alerts := alerts g @ [(message, level)]\<rparr>"

definition log_violation ::
  "int \<Rightarrow> string \<Rightarrow> string \<Rightarrow> string \<Rightarrow> details \<Rightarrow> string \<Rightarrow> guardian \<Rightarrow> guardian" where
  "log_violation now a pol sev det action g =
     (let violation = \<lparr>agent = a, policy = pol, severity = sev,
                        violation_timestamp = now, details = det, action_taken = action\<rparr>
      in g\<lparr>violations := (violations g)(a :=
              ltrim (lpush violation (violations g a)) 0 99)\<rparr>)"

definition flag_suspicious_behavior :: "int \<Rightarrow> string \<Rightarrow> reason \<Rightarrow> guardian \<Rightarrow> guardian" where
  "flag_suspicious_behavior now a r g =
     send_guardian_alert (Suspicious_behavior a r) ''warning''
       (g\<lparr>agents := (agents g)(a \<mapsto>
            \<lparr>agent_status = Suspicious, agent_last_check = now, threat_level = High\<rparr>)\<rparr>)"

text \<open>
  The three policy checks. Each catches every exception of its own body and prints
  it, so a failed fetch or an undecodable entry leaves the state as it is.
\<close>

definition check_deployment_policies ::
  "int \<Rightarrow> deployment list reply \<Rightarrow> string \<Rightarrow> guardian \<Rightarrow> guardian" where
  "check_deployment_policies now response a g =
     (case response of
        Failed e \<Rightarrow> g
      | Reply code ds \<Rightarrow>
          if code = 200 then
            (case those (map fromisoformat ds) of
               None \<Rightarrow> g
             | Some started \<Rightarrow>
                 (let recent = filter (\<lambda>t. t > now - hours 1) started
                  in if length recent > max_deployments_per_hour
                     then flag_suspicious_behavior now a
                            (Deployment_rate_exceeded (length recent))
                            (log_violation now a ''max_deployments_per_hour'' ''critical''
                               (Exceeded_deployment_limit (length recent))
                               ''Flagged as suspicious'' g)
                     else g))
          else g)"

definition check_cost_policies ::
  "int \<Rightarrow> real reply \<Rightarrow> string \<Rightarrow> guardian \<Rightarrow> guardian" where
  "check_cost_policies now response a g =
     (case response of
        Failed e \<Rightarrow> g
      | Reply code total_cost \<Rightarrow>
          if code = 200 then
            (if total_cost > max_cost_per_day
             then log_violation now a ''max_cost_per_day'' ''warning''
                    (Daily_cost_exceeds_limit total_cost) ''Alert sent'' g
             else g)
          else g)"

definition check_monitoring_policies ::
  "int \<Rightarrow> int reply \<Rightarrow> string \<Rightarrow> guardian \<Rightarrow> guardian" where
  "check_monitoring_policies now response a g =
     (case response of
        Failed e \<Rightarrow> g
      | Reply code down_count \<Rightarrow>
          if code = 200 then
            (if down_count > max_failed_health_checks
             then log_violation now a ''max_failed_health_checks'' ''critical''
                    (Workers_are_down down_count) ''Alert sent'' g
             else g)
          else g)"

definition check_agent_behavior :: "int \<Rightarrow> agent_probe \<Rightarrow> agent \<Rightarrow> guardian \<Rightarrow> guardian" where
  "check_agent_behavior now p a g =
     (case health p of
        Failed e \<Rightarrow> flag_suspicious_behavior now (agent_name a) (Unreachable e) g
      | Reply code body \<Rightarrow>
          if code \<noteq> 200
          then flag_suspicious_behavior now (agent_name a) (Health_check_failed code) g
          else
            (let g1 = (if agent_type a = ''orchestration''
                       then check_deployment_policies now (deployments p) (agent_name a) g
                       else if agent_type a = ''analytics''
                       then check_cost_policies now (costs_daily p) (agent_name a) g
                       else if agent_type a = ''monitoring''
                       then check_monitoring_policies now (metrics p) (agent_name a) g
                       else g)
             in g1\<lparr>agents := (agents g1)(agent_name a \<mapsto>
                     \<lparr>agent_status = Healthy, agent_last_check = now,
                      threat_level = Low\<rparr>)\<rparr>))"

text \<open>
  One monitoring pass, the body of the supervision loop and of \<^verbatim>\<open>POST /monitor/all\<close>:
  the agents are checked one after the other.
\<close>

definition perform_agent_monitoring ::
  "int \<Rightarrow> (agent \<Rightarrow> agent_probe) \<Rightarrow> guardian \<Rightarrow> guardian" where
  "perform_agent_monitoring now probes g =
     fold (\<lambda>a. check_agent_behavior now (probes a) a) AGENTS g"

text \<open>
  \<^verbatim>\<open>POST /stop/{agent_name}\<close>. \<open>enabled\<close> is \<^verbatim>\<open>EMERGENCY_STOP_ENABLED\<close>, read from
  the environment at start. The result is the raised \<^verbatim>\<open>HTTPException\<close> or the
  returned body, together with the state the call leaves.
\<close>

datatype http_exception = HTTPException int string

definition emergency_stop_agent ::
  "bool \<Rightarrow> int \<Rightarrow> string \<Rightarrow> guardian \<Rightarrow> (http_exception + status \<times> string) \<times> guardian" where
  "emergency_stop_agent enabled now a g =
     (if \<not> enabled then (Inl (HTTPException 403 ''Emergency stop disabled''), g)
      else
        (case find (\<lambda>x. agent_name x = a) AGENTS of
           None \<Rightarrow> (Inl (HTTPException 404 ''Agent not found''), g)
         | Some found \<Rightarrow>
             (let g1 = g\<lparr>agents := (agents g)(a \<mapsto>
                          \<lparr>agent_status = Stopped, agent_last_check = now,
                           threat_level = Critical\<rparr>)\<rparr>;
                  g2 = log_violation now a ''emergency_stop'' ''critical''
                         Manually_stopped_by_Guardian ''Agent process terminated'' g1;
                  g3 = send_guardian_alert (Emergency_stop_executed a) ''critical'' g2
              in (Inr (Stopped, a), g3))))"

text \<open>
  The operations that write the guardian's store, and a run of them from a store.
  \<open>Pass\<close> is one monitoring pass (periodic or manual); \<open>Check\<close> is the check of one
  agent, so that a stop request arriving between two checks of a pass is a run too.
\<close>

datatype operation =
    Stop bool int string
  | Check int agent_probe agent
  | Pass int "agent \<Rightarrow> agent_probe"

fun apply_operation :: "operation \<Rightarrow> guardian \<Rightarrow> guardian" where
  "apply_operation (Stop enabled now a) g = snd (emergency_stop_agent enabled now a g)"
| "apply_operation (Check now p a) g = check_agent_behavior now p a g"
| "apply_operation (Pass now probes) g = perform_agent_monitoring now probes g"

definition run_operations :: "operation list \<Rightarrow> guardian \<Rightarrow> guardian" where
  "run_operations ops g = fold apply_operation ops g"

section \<open>Rounding to two decimals\<close>

lemma round_nearest_cases:
  "round_nearest t y = \<lfloor>y\<rfloor> \<or>
   (round_nearest t y = \<lfloor>y\<rfloor> + 1 \<and> 1 / 2 \<le> y - of_int \<lfloor>y\<rfloor>)"
  by (auto simp: round_nearest_def Let_def)

lemma round_nearest_lower: "y - 1 / 2 \<le> of_int (round_nearest t y)"
  unfolding round_nearest_def Let_def by (auto; linarith)

lemma round_nearest_upper: "of_int (round_nearest t y) \<le> y + 1 / 2"
  unfolding round_nearest_def Let_def by (auto; linarith)

lemma round_nearest_le_int:
  assumes "y \<le> of_int k"
  shows "round_nearest t y \<le> k"
proof (cases "round_nearest t y = \<lfloor>y\<rfloor>")
  case True
  then show ?thesis using assms by (simp add: floor_le_iff)
next
  case False
  with round_nearest_cases [of t y]
  have up: "round_nearest t y = \<lfloor>y\<rfloor> + 1" and frac: "1 / 2 \<le> y - of_int \<lfloor>y\<rfloor>"
    by auto
  have "\<lfloor>y\<rfloor> \<le> k" using assms by (simp add: floor_le_iff)
  moreover have "\<lfloor>y\<rfloor> \<noteq> k" using frac assms by auto
  ultimately show ?thesis using up by simp
qed

lemma round_nearest_ge_int:
  assumes "of_int k \<le> y"
  shows "k \<le> round_nearest t y"
proof -
  have "k \<le> \<lfloor>y\<rfloor>" using assms by (simp add: le_floor_iff)
  then show ?thesis using round_nearest_cases [of t y] by auto
qed

lemma fmt2_error: "\<bar>fmt2 t x - x\<bar> \<le> 1 / 200"
proof -
  define r where "r = real_of_int (round_nearest t (x * 100))"
  have lo: "x * 100 - 1 / 2 \<le> r" and hi: "r \<le> x * 100 + 1 / 2"
    unfolding r_def by (rule round_nearest_lower, rule round_nearest_upper)
  have "fmt2 t x = r / 100" by (simp add: fmt2_def r_def)
  then show ?thesis using lo hi by linarith
qed

lemma fmt2_range: "0 \<le> x \<Longrightarrow> x \<le> 100 \<Longrightarrow> 0 \<le> fmt2 t x \<and> fmt2 t x \<le> 100"
  using round_nearest_ge_int [of 0 "x * 100" t] round_nearest_le_int [of "x * 100" 10000 t]
  by (simp add: fmt2_def field_simps)

lemma fmt2_cents: "\<exists>k::int. fmt2 t x = of_int k / 100"
  by (auto simp: fmt2_def)

section \<open>The health check of one worker\<close>

lemma statuses_check_worker_health:
  "statuses (check_worker_health now t p w s) =
     (statuses s)(name w \<mapsto> (case p of
        Responded code rt \<Rightarrow>
          \<lparr>status = determine_status code rt, response_time_ms = fmt2_exact rt,
           last_check = now,
           uptime_percent =
             fmt2 t (prev_uptime s (name w) * 0.95
                     + (if determine_status code rt \<in> {Healthy, Degraded} then 1.0 else 0.0)
                       * 5.0),
           error = []\<rparr>
      | Raised e \<Rightarrow>
          \<lparr>status = Down, response_time_ms = 0, last_check = now,
           uptime_percent = fmt2 t (prev_uptime s (name w) * 0.95), error = e\<rparr>))"
  by (simp add: check_worker_health_def Let_def restart_worker_def send_alert_def
      split: probe.splits)

text \<open>
  C4. The status that a check stores for its worker is \<open>Down\<close> when the probe raised;
  otherwise \<open>Healthy\<close> when the status code is 200 and the response time is below
  1000 ms; otherwise \<open>Degraded\<close> when the code is 200 and the time is below 3000 ms;
  otherwise \<open>Down\<close>.
\<close>

theorem probe_classification:
  "map_option status (statuses (check_worker_health now t p w s) (name w)) =
     Some (case p of
        Raised e \<Rightarrow> Down
      | Responded code rt \<Rightarrow>
          if code = 200 \<and> rt < 1000 then Healthy
          else if code = 200 \<and> rt < 3000 then Degraded
          else Down)"
  by (simp add: statuses_check_worker_health determine_status_def split: probe.splits)

section \<open>The availability estimate\<close>

text \<open>
  \<open>prev_uptime\<close> is the code's own read of the stored uptime, 100.0 for a worker
  that has no record. After a check the worker's stored uptime is the moving average
  of the previous one, written with two decimals.
\<close>

lemma prev_uptime_check_worker_health:
  "prev_uptime (check_worker_health now t p w s) n =
     (if n = name w
      then fmt2 t (prev_uptime s n * 0.95
                   + (if map_option status (statuses (check_worker_health now t p w s) (name w))
                         \<in> {Some Healthy, Some Degraded} then 5.0 else 0))
      else prev_uptime s n)"
  by (simp add: prev_uptime_def statuses_check_worker_health split: probe.splits)

lemma prev_uptime_empty_store: "prev_uptime empty_store n = 100"
  by (simp add: prev_uptime_def empty_store_def)

text \<open>
  C5, as the code has it. A never-checked worker reads as 100.0. A check stores the
  value \<open>uptime_prev * 0.95 + 5.0\<close> when the classification is healthy or degraded
  and \<open>uptime_prev * 0.95\<close> otherwise (the exception path included), rounded to two
  decimals by the format \<^verbatim>\<open>.2f\<close>: the stored uptime has two decimals and is
  within 0.005 of that value, whichever way a tie falls. From the seed, the probes
  healthy, timeout, healthy store 100.0, 95.0 and 95.25.
\<close>

theorem stored_uptime_update:
  "(statuses s n = None \<longrightarrow> prev_uptime s n = 100) \<and>
   (let s' = check_worker_health now t p w s;
        up = (map_option status (statuses s' (name w)) \<in> {Some Healthy, Some Degraded});
        new_uptime = prev_uptime s (name w) * 0.95 + (if up then 5.0 else 0)
    in (\<exists>k::int. prev_uptime s' (name w) = of_int k / 100) \<and>
       \<bar>prev_uptime s' (name w) - new_uptime\<bar> \<le> 0.005) \<and>
   map (\<lambda>cs. prev_uptime (run_checks cs empty_store) ''hub'')
     [[(1, t1, Responded 200 250, hd WORKERS)],
      [(1, t1, Responded 200 250, hd WORKERS), (2, t2, Raised ''timeout'', hd WORKERS)],
      [(1, t1, Responded 200 250, hd WORKERS), (2, t2, Raised ''timeout'', hd WORKERS),
       (3, t3, Responded 200 500, hd WORKERS)]]
     = [100.0, 95.0, 95.25]"
proof (intro conjI)
  show "statuses s n = None \<longrightarrow> prev_uptime s n = 100"
    by (simp add: prev_uptime_def)
  show "let s' = check_worker_health now t p w s;
        up = (map_option status (statuses s' (name w)) \<in> {Some Healthy, Some Degraded});
        new_uptime = prev_uptime s (name w) * 0.95 + (if up then 5.0 else 0)
    in (\<exists>k::int. prev_uptime s' (name w) = of_int k / 100) \<and>
       \<bar>prev_uptime s' (name w) - new_uptime\<bar> \<le> 0.005"
    using fmt2_error [of t "prev_uptime s (name w) * 0.95 + 5.0"]
      fmt2_error [of t "prev_uptime s (name w) * 0.95"]
      fmt2_cents [of t "prev_uptime s (name w) * 0.95 + 5.0"]
      fmt2_cents [of t "prev_uptime s (name w) * 0.95"]
    by (simp add: Let_def prev_uptime_check_worker_health)
  show "map (\<lambda>cs. prev_uptime (run_checks cs empty_store) ''hub'')
     [[(1, t1, Responded 200 250, hd WORKERS)],
      [(1, t1, Responded 200 250, hd WORKERS), (2, t2, Raised ''timeout'', hd WORKERS)],
      [(1, t1, Responded 200 250, hd WORKERS), (2, t2, Raised ''timeout'', hd WORKERS),
       (3, t3, Responded 200 500, hd WORKERS)]]
     = [100.0, 95.0, 95.25]"
    by (simp add: prev_uptime_def statuses_check_worker_health WORKERS_def
        determine_status_def fmt2_def round_nearest_def Let_def empty_store_def)
qed

theorem stored_uptime_update_witness:
  "statuses empty_store ''hub'' = None \<and> prev_uptime empty_store ''hub'' = 100 \<and>
   prev_uptime (check_worker_health 1 True (Raised ''timeout'') (hd WORKERS) empty_store)
     ''hub'' = 95 \<and>
   \<bar>(95::real) - 100 * 0.95\<bar> \<le> 0.005 \<and> (95::real) = of_int 9500 / 100"
  using stored_uptime_update [of empty_store "''hub''" 1 True "Raised ''timeout''"
      "hd WORKERS"]
  by (simp add: Let_def WORKERS_def empty_store_def prev_uptime_def
      statuses_check_worker_health fmt2_def round_nearest_def)

text \<open>
  C5 as stated fails on the stored value: after the scenario the stored uptime is
  95.25; a fourth probe, classified healthy, stores 95.49 and not
  \<open>95.25 * 0.95 + 5.0 = 95.4875\<close>. The value is not a tie, so the flags play no
  part.
\<close>

theorem stored_uptime_counterexample:
  "map_option status (statuses (run_checks
       [(1, False, Responded 200 250, hd WORKERS), (2, False, Raised ''timeout'', hd WORKERS),
        (3, False, Responded 200 500, hd WORKERS), (4, False, Responded 200 500, hd WORKERS)]
       empty_store) ''hub'') = Some Healthy \<and>
   prev_uptime (run_checks
       [(1, False, Responded 200 250, hd WORKERS), (2, False, Raised ''timeout'', hd WORKERS),
        (3, False, Responded 200 500, hd WORKERS), (4, False, Responded 200 500, hd WORKERS)]
       empty_store) ''hub''
   \<noteq> prev_uptime (run_checks
       [(1, False, Responded 200 250, hd WORKERS), (2, False, Raised ''timeout'', hd WORKERS),
        (3, False, Responded 200 500, hd WORKERS)]
       empty_store) ''hub'' * 0.95 + 5.0 \<and>
   prev_uptime (run_checks
       [(1, True, Responded 200 250, hd WORKERS), (2, True, Raised ''timeout'', hd WORKERS),
        (3, True, Responded 200 500, hd WORKERS), (4, True, Responded 200 500, hd WORKERS)]
       empty_store) ''hub''
   \<noteq> prev_uptime (run_checks
       [(1, True, Responded 200 250, hd WORKERS), (2, True, Raised ''timeout'', hd WORKERS),
        (3, True, Responded 200 500, hd WORKERS)]
       empty_store) ''hub'' * 0.95 + 5.0"
  by (simp add: prev_uptime_def statuses_check_worker_health WORKERS_def
      determine_status_def fmt2_def round_nearest_def Let_def empty_store_def)

lemma uptime_range_step:
  assumes "\<And>n. 0 \<le> prev_uptime s n \<and> prev_uptime s n \<le> 100"
  shows "0 \<le> prev_uptime (check_worker_health now t p w s) n \<and>
         prev_uptime (check_worker_health now t p w s) n \<le> 100"
proof (cases "n = name w")
  case False
  then show ?thesis using assms by (simp add: prev_uptime_check_worker_health)
next
  case True
  have a: "0 \<le> prev_uptime s (name w)" and b: "prev_uptime s (name w) \<le> 100"
    using assms by auto
  have "0 \<le> fmt2 t (prev_uptime s (name w) * 0.95 + c) \<and>
        fmt2 t (prev_uptime s (name w) * 0.95 + c) \<le> 100" if "c = 0 \<or> c = 5.0" for c
    using a b that by (intro fmt2_range) auto
  then show ?thesis unfolding True prev_uptime_check_worker_health by simp
qed

lemma uptime_range_run:
  "(\<And>n. 0 \<le> prev_uptime s n \<and> prev_uptime s n \<le> 100) \<Longrightarrow>
   0 \<le> prev_uptime (run_checks cs s) n \<and> prev_uptime (run_checks cs s) n \<le> 100"
proof (induction cs arbitrary: s)
  case Nil
  then show ?case by simp
next
  case (Cons c cs)
  obtain now t p w where c: "c = (now, t, p, w)" by (cases c)
  show ?case unfolding c run_checks.simps
    by (rule Cons.IH) (rule uptime_range_step, rule Cons.prems)
qed

text \<open>
  C6. In every store reached from the empty one by any run of checks, the uptime of
  every worker (as read, and as stored in its record when it has one) is within
  [0, 100]; and each of the two update maps sends [0, 100] into itself.
\<close>

theorem uptime_within_bounds:
  "0 \<le> prev_uptime (run_checks cs empty_store) n \<and>
   prev_uptime (run_checks cs empty_store) n \<le> 100 \<and>
   (\<forall>r. statuses (run_checks cs empty_store) n = Some r \<longrightarrow>
        0 \<le> uptime_percent r \<and> uptime_percent r \<le> 100) \<and>
   (0 \<le> x \<and> x \<le> 100 \<longrightarrow>
      0 \<le> x * 0.95 \<and> x * 0.95 \<le> 100 \<and> 0 \<le> x * 0.95 + 5.0 \<and> x * 0.95 + 5.0 \<le> (100::real))"
proof -
  have r: "0 \<le> prev_uptime (run_checks cs empty_store) n \<and>
           prev_uptime (run_checks cs empty_store) n \<le> 100"
    by (rule uptime_range_run) (simp add: prev_uptime_empty_store)
  then have "\<forall>r. statuses (run_checks cs empty_store) n = Some r \<longrightarrow>
        0 \<le> uptime_percent r \<and> uptime_percent r \<le> 100"
    by (auto simp: prev_uptime_def)
  with r show ?thesis by auto
qed

theorem uptime_within_bounds_witness:
  "statuses (run_checks [(1, True, Raised ''timeout'', hd WORKERS)] empty_store) ''hub''
     = Some \<lparr>status = Down, response_time_ms = 0, last_check = 1, uptime_percent = 95,
             error = ''timeout''\<rparr> \<and>
   (0::real) \<le> 95 \<and> (95::real) \<le> 100 \<and>
   (0::real) \<le> 100 * 0.95 + 5.0 \<and> 100 * 0.95 + 5.0 \<le> (100::real)"
  using uptime_within_bounds [of "[(1, True, Raised ''timeout'', hd WORKERS)]" "''hub''" 100]
  by (simp add: WORKERS_def empty_store_def prev_uptime_def
      statuses_check_worker_health fmt2_def round_nearest_def)














section \<open>Aggregated metrics of the health monitor\<close>

lemma total_uptime_fold:
  "total_uptime (fold (metrics_step s) ws acc) =
     total_uptime acc +
     (\<Sum>w\<leftarrow>filter (\<lambda>w. statuses s (name w) \<noteq> None) ws.
        uptime_percent (the (statuses s (name w))))"
  by (induction ws arbitrary: acc) (auto simp: metrics_step_def Let_def)

text \<open>
  C10. With a non-empty worker list, the average uptime reported by \<^verbatim>\<open>GET /metrics\<close>
  is the sum of the stored uptimes of the workers that have a status record, divided
  by the number of all configured workers: a never-checked worker adds 0, not its
  seed 100.0, and when no worker has been checked the average is 0.
\<close>

theorem metrics_average_uptime:
  "(workers \<noteq> [] \<longrightarrow>
      avg_uptime_percent (get_metrics workers s) =
        (\<Sum>w\<leftarrow>filter (\<lambda>w. statuses s (name w) \<noteq> None) workers.
           uptime_percent (the (statuses s (name w))))
        / real (length workers)) \<and>
   (workers \<noteq> [] \<and> (\<forall>w\<in>set workers. statuses s (name w) = None) \<longrightarrow>
      avg_uptime_percent (get_metrics workers s) = 0)"
proof -
  have none: "filter (\<lambda>w. statuses s (name w) \<noteq> None) workers = []"
    if "\<forall>w\<in>set workers. statuses s (name w) = None"
    using that by (simp add: filter_empty_conv)
  show ?thesis
    by (auto simp: get_metrics_def Let_def total_uptime_fold none)
qed

theorem metrics_average_uptime_witness:
  "WORKERS \<noteq> [] \<and> list_all (\<lambda>w. statuses empty_store (name w) = None) WORKERS \<and>
   avg_uptime_percent (get_metrics WORKERS empty_store) = 0 \<and>
   prev_uptime empty_store ''hub'' = 100 \<and>
   avg_uptime_percent (get_metrics WORKERS
       (run_checks [(1, True, Raised ''timeout'', hd WORKERS)] empty_store)) = 95 / 6"
  using metrics_average_uptime [of WORKERS empty_store]
    metrics_average_uptime [of WORKERS
      "run_checks [(1, True, Raised ''timeout'', hd WORKERS)] empty_store"]
  by (simp add: WORKERS_def empty_store_def prev_uptime_def
      statuses_check_worker_health fmt2_def round_nearest_def)

section \<open>Bounded lists\<close>

lemma take_append_take: "take n (xs @ take n ys) = take n (xs @ ys)"
  by (induction xs arbitrary: n) (auto simp: take_Cons')

lemma push_trim: "ltrim (lpush v xs) 0 99 = v # take 99 xs"
  by (simp add: ltrim_def lpush_def)

lemma fold_push_trim:
  "length xs \<le> 100 \<Longrightarrow>
   fold (\<lambda>v xs. ltrim (lpush v xs) 0 99) vs xs = take 100 (rev vs @ xs)"
proof (induction vs arbitrary: xs)
  case Nil
  then show ?case by simp
next
  case (Cons v vs)
  have "fold (\<lambda>v xs. ltrim (lpush v xs) 0 99) (v # vs) xs =
        take 100 (rev vs @ take 100 (v # xs))"
    using Cons.IH [of "v # take 99 xs"] by (simp add: push_trim)
  then show ?case by (simp only: take_append_take) simp
qed

lemma history_check_worker_health:
  "history (check_worker_health now t (Responded code rt) w s) =
     (history s)(name w :=
        \<lparr>timestamp = now, entry_status = determine_status code rt,
         entry_response_time_ms = rt, status_code = code\<rparr> # take 99 (history s (name w)))"
  by (simp add: check_worker_health_def Let_def restart_worker_def send_alert_def push_trim)

lemma violations_log_violation:
  "violations (log_violation now a pol sev det act g) =
     (violations g)(a :=
        \<lparr>agent = a, policy = pol, severity = sev, violation_timestamp = now,
         details = det, action_taken = act\<rparr> # take 99 (violations g a))"
  by (simp add: log_violation_def Let_def push_trim)

lemma take_99_butlast: "length xs = 100 \<Longrightarrow> take 99 xs = butlast xs"
  by (simp add: butlast_conv_take)

text \<open>
  C8. An append to a worker's history (the response path of a check) and an append to
  an agent's violations put the new entry first, keep the older entries in their
  order, and leave at most 100 entries; when the list already holds 100, the entry
  dropped is the last one, which is the oldest. Pushing \<open>vs\<close> one after the other
  onto an empty list leaves the 100 newest, newest first.
\<close>

theorem bounded_sequences:
  "(let s' = check_worker_health now t (Responded code rt) w s;
        entry = \<lparr>timestamp = now, entry_status = determine_status code rt,
                 entry_response_time_ms = rt, status_code = code\<rparr>
    in history s' (name w) = entry # take 99 (history s (name w)) \<and>
       length (history s' (name w)) \<le> 100 \<and>
       (length (history s (name w)) = 100 \<longrightarrow>
          history s' (name w) = entry # butlast (history s (name w)))) \<and>
   (let g' = log_violation now a pol sev det act g;
        violation = \<lparr>agent = a, policy = pol, severity = sev, violation_timestamp = now,
                     details = det, action_taken = act\<rparr>
    in violations g' a = violation # take 99 (violations g a) \<and>
       length (violations g' a) \<le> 100 \<and>
       (length (violations g a) = 100 \<longrightarrow>
          violations g' a = violation # butlast (violations g a))) \<and>
   fold (\<lambda>v xs. ltrim (lpush v xs) 0 99) vs [] = take 100 (rev vs)"
  using fold_push_trim [of "[]" vs]
  by (simp add: Let_def history_check_worker_health violations_log_violation take_99_butlast)


theorem bounded_sequences_witness:
  "length (history (empty_store\<lparr>history := (\<lambda>_. replicate 99
        \<lparr>timestamp = 2, entry_status = Healthy, entry_response_time_ms = 250,
         status_code = 200\<rparr> @
        [\<lparr>timestamp = 1, entry_status = Down, entry_response_time_ms = 40,
          status_code = 500\<rparr>])\<rparr>) ''hub'') = 100 \<and>
   history (check_worker_health 3 True (Responded 200 1500) (hd WORKERS)
      (empty_store\<lparr>history := (\<lambda>_. replicate 99
        \<lparr>timestamp = 2, entry_status = Healthy, entry_response_time_ms = 250,
         status_code = 200\<rparr> @
        [\<lparr>timestamp = 1, entry_status = Down, entry_response_time_ms = 40,
          status_code = 500\<rparr>])\<rparr>)) ''hub''
     = \<lparr>timestamp = 3, entry_status = Degraded, entry_response_time_ms = 1500,
        status_code = 200\<rparr> #
       replicate 99 \<lparr>timestamp = 2, entry_status = Healthy, entry_response_time_ms = 250,
         status_code = 200\<rparr> \<and>
   length (violations (empty_guardian\<lparr>violations := (\<lambda>_. replicate 99
        \<lparr>agent = ''cost-optimizer'', policy = ''max_cost_per_day'', severity = ''warning'',
         violation_timestamp = 2, details = Daily_cost_exceeds_limit 11,
         action_taken = ''Alert sent''\<rparr> @
        [\<lparr>agent = ''cost-optimizer'', policy = ''max_cost_per_day'', severity = ''warning'',
          violation_timestamp = 1, details = Daily_cost_exceeds_limit 12,
          action_taken = ''Alert sent''\<rparr>])\<rparr>) ''cost-optimizer'') = 100 \<and>
   violations (log_violation 3 ''cost-optimizer'' ''emergency_stop'' ''critical''
      Manually_stopped_by_Guardian ''Agent process terminated''
      (empty_guardian\<lparr>violations := (\<lambda>_. replicate 99
        \<lparr>agent = ''cost-optimizer'', policy = ''max_cost_per_day'', severity = ''warning'',
         violation_timestamp = 2, details = Daily_cost_exceeds_limit 11,
         action_taken = ''Alert sent''\<rparr> @
        [\<lparr>agent = ''cost-optimizer'', policy = ''max_cost_per_day'', severity = ''warning'',
          violation_timestamp = 1, details = Daily_cost_exceeds_limit 12,
          action_taken = ''Alert sent''\<rparr>])\<rparr>)) ''cost-optimizer''
     = \<lparr>agent = ''cost-optimizer'', policy = ''emergency_stop'', severity = ''critical'',
        violation_timestamp = 3, details = Manually_stopped_by_Guardian,
        action_taken = ''Agent process terminated''\<rparr> #
       replicate 99 \<lparr>agent = ''cost-optimizer'', policy = ''max_cost_per_day'',
         severity = ''warning'', violation_timestamp = 2,
         details = Daily_cost_exceeds_limit 11, action_taken = ''Alert sent''\<rparr>"
  using bounded_sequences [of 3 True 200 1500 "hd WORKERS"
      "empty_store\<lparr>history := (\<lambda>_. replicate 99
        \<lparr>timestamp = 2, entry_status = Healthy, entry_response_time_ms = 250,
         status_code = 200\<rparr> @
        [\<lparr>timestamp = 1, entry_status = Down, entry_response_time_ms = 40,
          status_code = 500\<rparr>])\<rparr>"
      "''cost-optimizer''" "''emergency_stop''" "''critical''"
      Manually_stopped_by_Guardian "''Agent process terminated''"
      "empty_guardian\<lparr>violations := (\<lambda>_. replicate 99
        \<lparr>agent = ''cost-optimizer'', policy = ''max_cost_per_day'', severity = ''warning'',
         violation_timestamp = 2, details = Daily_cost_exceeds_limit 11,
         action_taken = ''Alert sent''\<rparr> @
        [\<lparr>agent = ''cost-optimizer'', policy = ''max_cost_per_day'', severity = ''warning'',
          violation_timestamp = 1, details = Daily_cost_exceeds_limit 12,
          action_taken = ''Alert sent''\<rparr>])\<rparr>" "[]"]
  by (simp add: Let_def WORKERS_def determine_status_def)

section \<open>The guardian's store\<close>

lemma agents_log_violation [simp]:
  "agents (log_violation now a pol sev det act g) = agents g"
  by (simp add: log_violation_def Let_def)

lemma agents_flag_suspicious_behavior:
  "agents (flag_suspicious_behavior now a r g) =
     (agents g)(a \<mapsto> \<lparr>agent_status = Suspicious, agent_last_check = now,
                       threat_level = High\<rparr>)"
  by (simp add: flag_suspicious_behavior_def send_guardian_alert_def)

lemma agents_check_deployment_policies:
  "agents (check_deployment_policies now response a g) = agents g \<or>
   agents (check_deployment_policies now response a g) =
     (agents g)(a \<mapsto> \<lparr>agent_status = Suspicious, agent_last_check = now,
                       threat_level = High\<rparr>)"
  by (simp add: check_deployment_policies_def agents_flag_suspicious_behavior Let_def
      split: reply.splits option.splits)

lemma agents_check_cost_policies [simp]:
  "agents (check_cost_policies now response a g) = agents g"
  by (simp add: check_cost_policies_def split: reply.splits)

lemma agents_check_monitoring_policies [simp]:
  "agents (check_monitoring_policies now response a g) = agents g"
  by (simp add: check_monitoring_policies_def split: reply.splits)

lemma agents_check_agent_behavior:
  "agents (check_agent_behavior now p a g) =
     (agents g)(agent_name a \<mapsto>
        (if (case health p of Failed e \<Rightarrow> False | Reply code body \<Rightarrow> code = 200)
         then \<lparr>agent_status = Healthy, agent_last_check = now, threat_level = Low\<rparr>
         else \<lparr>agent_status = Suspicious, agent_last_check = now, threat_level = High\<rparr>))"
  using agents_check_deployment_policies [of now "deployments p" "agent_name a" g]
  by (auto simp: check_agent_behavior_def agents_flag_suspicious_behavior Let_def
      split: reply.splits)

lemma agents_emergency_stop_agent:
  "agents (snd (emergency_stop_agent enabled now a g)) =
     (if enabled \<and> a \<in> agent_name ` set AGENTS
      then (agents g)(a \<mapsto> \<lparr>agent_status = Stopped, agent_last_check = now,
                             threat_level = Critical\<rparr>)
      else agents g)"
proof (cases "find (\<lambda>x. agent_name x = a) AGENTS")
  case None
  then have "a \<notin> agent_name ` set AGENTS" by (auto simp: find_None_iff)
  with None show ?thesis by (simp add: emergency_stop_agent_def)
next
  case (Some found)
  then have "a \<in> agent_name ` set AGENTS" by (auto simp: find_Some_iff)
  with Some show ?thesis
    by (simp add: emergency_stop_agent_def Let_def send_guardian_alert_def)
qed

lemma agents_perform_agent_monitoring:
  "agents (perform_agent_monitoring now probes g) n =
     (if n \<in> agent_name ` set AGENTS
      then Some (if (case health (probes (the (find (\<lambda>x. agent_name x = n) AGENTS))) of
                       Failed e \<Rightarrow> False | Reply code body \<Rightarrow> code = 200)
                 then \<lparr>agent_status = Healthy, agent_last_check = now, threat_level = Low\<rparr>
                 else \<lparr>agent_status = Suspicious, agent_last_check = now,
                       threat_level = High\<rparr>)
      else agents g n)"
  by (simp add: perform_agent_monitoring_def AGENTS_def agents_check_agent_behavior)

lemma violations_emergency_stop_agent:
  "enabled \<Longrightarrow> a \<in> agent_name ` set AGENTS \<Longrightarrow>
   violations (snd (emergency_stop_agent enabled now a g)) a =
     \<lparr>agent = a, policy = ''emergency_stop'', severity = ''critical'',
      violation_timestamp = now, details = Manually_stopped_by_Guardian,
      action_taken = ''Agent process terminated''\<rparr> # take 99 (violations g a)"
proof -
  assume en: "enabled" and reg: "a \<in> agent_name ` set AGENTS"
  from reg obtain found where "find (\<lambda>x. agent_name x = a) AGENTS = Some found"
    by (cases "find (\<lambda>x. agent_name x = a) AGENTS") (auto simp: find_None_iff)
  with en show ?thesis
    by (simp add: emergency_stop_agent_def Let_def send_guardian_alert_def
        violations_log_violation)
qed

lemma violations_check_agent_behavior_quiet:
  assumes "health p = Reply 200 ()"
    and "agent_type ag = ''orchestration'' \<longrightarrow>
           (\<forall>ds started. deployments p = Reply 200 ds \<and>
              those (map fromisoformat ds) = Some started \<longrightarrow>
              length (filter (\<lambda>t. t > now - hours 1) started) \<le> max_deployments_per_hour)"
    and "agent_type ag = ''analytics'' \<longrightarrow>
           (\<forall>c. costs_daily p = Reply 200 c \<longrightarrow> c \<le> max_cost_per_day)"
    and "agent_type ag = ''monitoring'' \<longrightarrow>
           (\<forall>d. metrics p = Reply 200 d \<longrightarrow> d \<le> max_failed_health_checks)"
  shows "violations (check_agent_behavior now p ag g) = violations g"
proof -
  have dep: "check_deployment_policies now (deployments p) (agent_name ag) g = g"
    if "agent_type ag = ''orchestration''"
    using assms(2) that
    by (auto simp: check_deployment_policies_def Let_def split: reply.splits option.splits)
  have cost: "check_cost_policies now (costs_daily p) (agent_name ag) g = g"
    if "agent_type ag = ''analytics''"
    using assms(3) that by (auto simp: check_cost_policies_def split: reply.splits)
  have mon: "check_monitoring_policies now (metrics p) (agent_name ag) g = g"
    if "agent_type ag = ''monitoring''"
    using assms(4) that by (auto simp: check_monitoring_policies_def split: reply.splits)
  show ?thesis
    using assms(1) dep cost mon by (simp add: check_agent_behavior_def Let_def)
qed

text \<open>
  C1, as the code has it. The stop operation, when it is enabled and the agent is
  registered, stores the status \<open>Stopped\<close> and puts an \<^verbatim>\<open>emergency_stop\<close> violation
  first in the agent's list. No check and no pass writes \<open>Stopped\<close>: an agent that
  is stopped after one was stopped before it. But the status is not kept. A check of
  an agent whose liveness probe fails or does not return 200 leaves it suspicious,
  whatever its status was; a check whose probe returns 200 and whose policy check
  finds no violation (the deployments of the last hour are at most 10, the daily cost
  is at most 10.0, the workers down are at most 5, or the figures cannot be fetched)
  logs nothing and leaves it healthy, whatever its status was. A pass leaves for every
  registered agent the record that the check of that agent leaves. Nothing is said of
  the status after a check that logs a violation.
\<close>

theorem stopped_is_overwritten:
  "(enabled \<and> a \<in> agent_name ` set AGENTS \<longrightarrow>
      map_option agent_status (agents (snd (emergency_stop_agent enabled now a g)) a)
        = Some Stopped \<and>
      map policy (take 1 (violations (snd (emergency_stop_agent enabled now a g)) a))
        = [''emergency_stop'']) \<and>
   (health p \<noteq> Reply 200 () \<longrightarrow>
      map_option agent_status (agents (check_agent_behavior now p ag g) (agent_name ag))
        = Some Suspicious) \<and>
   (health p = Reply 200 () \<and>
    (agent_type ag = ''orchestration'' \<longrightarrow>
       (\<forall>ds started. deployments p = Reply 200 ds \<and>
          those (map fromisoformat ds) = Some started \<longrightarrow>
          length (filter (\<lambda>t. t > now - hours 1) started) \<le> max_deployments_per_hour)) \<and>
    (agent_type ag = ''analytics'' \<longrightarrow>
       (\<forall>c. costs_daily p = Reply 200 c \<longrightarrow> c \<le> max_cost_per_day)) \<and>
    (agent_type ag = ''monitoring'' \<longrightarrow>
       (\<forall>d. metrics p = Reply 200 d \<longrightarrow> d \<le> max_failed_health_checks)) \<longrightarrow>
      violations (check_agent_behavior now p ag g) = violations g \<and>
      map_option agent_status (agents (check_agent_behavior now p ag g) (agent_name ag))
        = Some Healthy) \<and>
   (ag \<in> set AGENTS \<longrightarrow>
      agents (perform_agent_monitoring now probes g) (agent_name ag)
        = agents (check_agent_behavior now (probes ag) ag g) (agent_name ag)) \<and>
   (map_option agent_status (agents (check_agent_behavior now p ag g) n) = Some Stopped \<longrightarrow>
      map_option agent_status (agents g n) = Some Stopped) \<and>
   (map_option agent_status (agents (perform_agent_monitoring now probes g) n) = Some Stopped
      \<longrightarrow> map_option agent_status (agents g n) = Some Stopped)"
proof (intro conjI impI)
  assume "enabled \<and> a \<in> agent_name ` set AGENTS"
  then show "map_option agent_status (agents (snd (emergency_stop_agent enabled now a g)) a)
        = Some Stopped"
    and "map policy (take 1 (violations (snd (emergency_stop_agent enabled now a g)) a))
        = [''emergency_stop'']"
    by (simp_all add: agents_emergency_stop_agent violations_emergency_stop_agent)
next
  assume "health p \<noteq> Reply 200 ()"
  then show "map_option agent_status
      (agents (check_agent_behavior now p ag g) (agent_name ag)) = Some Suspicious"
    by (cases "health p") (auto simp: agents_check_agent_behavior)
next
  assume quiet: "health p = Reply 200 () \<and>
    (agent_type ag = ''orchestration'' \<longrightarrow>
       (\<forall>ds started. deployments p = Reply 200 ds \<and>
          those (map fromisoformat ds) = Some started \<longrightarrow>
          length (filter (\<lambda>t. t > now - hours 1) started) \<le> max_deployments_per_hour)) \<and>
    (agent_type ag = ''analytics'' \<longrightarrow>
       (\<forall>c. costs_daily p = Reply 200 c \<longrightarrow> c \<le> max_cost_per_day)) \<and>
    (agent_type ag = ''monitoring'' \<longrightarrow>
       (\<forall>d. metrics p = Reply 200 d \<longrightarrow> d \<le> max_failed_health_checks))"
  then show "violations (check_agent_behavior now p ag g) = violations g"
    by (intro violations_check_agent_behavior_quiet) blast+
  from quiet show "map_option agent_status
      (agents (check_agent_behavior now p ag g) (agent_name ag)) = Some Healthy"
    by (simp add: agents_check_agent_behavior)
next
  assume "ag \<in> set AGENTS"
  then show "agents (perform_agent_monitoring now probes g) (agent_name ag)
        = agents (check_agent_behavior now (probes ag) ag g) (agent_name ag)"
    by (auto simp: agents_perform_agent_monitoring agents_check_agent_behavior AGENTS_def)
next
  assume "map_option agent_status (agents (check_agent_behavior now p ag g) n) = Some Stopped"
  then show "map_option agent_status (agents g n) = Some Stopped"
    by (simp add: agents_check_agent_behavior split: if_splits)
next
  assume "map_option agent_status (agents (perform_agent_monitoring now probes g) n)
            = Some Stopped"
  then show "map_option agent_status (agents g n) = Some Stopped"
    by (simp add: agents_perform_agent_monitoring split: if_splits)
qed

theorem stopped_is_overwritten_witness:
  "''cost-optimizer'' \<in> agent_name ` set AGENTS \<and>
   map_option agent_status
     (agents (snd (emergency_stop_agent True 5 ''cost-optimizer'' empty_guardian))
        ''cost-optimizer'') = Some Stopped \<and>
   map policy (take 1
     (violations (snd (emergency_stop_agent True 5 ''cost-optimizer'' empty_guardian))
        ''cost-optimizer'')) = [''emergency_stop''] \<and>
   health \<lparr>health = Failed ''refused'', deployments = Failed ''refused'',
           costs_daily = Failed ''refused'', metrics = Failed ''refused''\<rparr>
     \<noteq> Reply 200 () \<and>
   map_option agent_status
     (agents (check_agent_behavior 6
        \<lparr>health = Failed ''refused'', deployments = Failed ''refused'',
         costs_daily = Failed ''refused'', metrics = Failed ''refused''\<rparr> (AGENTS ! 1)
        (snd (emergency_stop_agent True 5 ''cost-optimizer'' empty_guardian)))
        ''cost-optimizer'') = Some Suspicious \<and>
   agent_type (AGENTS ! 1) = ''analytics'' \<and> (3::real) \<le> max_cost_per_day \<and>
   map_option agent_status
     (agents (check_agent_behavior 6
        \<lparr>health = Reply 200 (), deployments = Reply 200 [],
         costs_daily = Reply 200 3, metrics = Reply 200 0\<rparr> (AGENTS ! 1)
        (snd (emergency_stop_agent True 5 ''cost-optimizer'' empty_guardian)))
        ''cost-optimizer'') = Some Healthy \<and>
   AGENTS ! 1 \<in> set AGENTS \<and>
   map_option agent_status
     (agents (perform_agent_monitoring 6
        (\<lambda>x. \<lparr>health = Reply 200 (), deployments = Reply 200 [],
               costs_daily = Reply 200 3, metrics = Reply 200 0\<rparr>)
        (snd (emergency_stop_agent True 5 ''cost-optimizer'' empty_guardian)))
        ''cost-optimizer'') = Some Healthy \<and>
   map_option agent_status
     (agents (check_agent_behavior 6
        \<lparr>health = Failed ''refused'', deployments = Failed ''refused'',
         costs_daily = Failed ''refused'', metrics = Failed ''refused''\<rparr> (AGENTS ! 0)
        (snd (emergency_stop_agent True 5 ''cost-optimizer'' empty_guardian)))
        ''cost-optimizer'') = Some Stopped"
proof -
  have reg: "''cost-optimizer'' \<in> agent_name ` set AGENTS"
    and mem: "AGENTS ! 1 \<in> set AGENTS"
    and nm: "agent_name (AGENTS ! 1) = ''cost-optimizer''"
    and ty: "agent_type (AGENTS ! 1) = ''analytics''"
    and lim: "(3::real) \<le> max_cost_per_day"
    by (simp_all add: AGENTS_def max_cost_per_day_def)
  have other: "map_option agent_status
     (agents (check_agent_behavior 6
        \<lparr>health = Failed ''refused'', deployments = Failed ''refused'',
         costs_daily = Failed ''refused'', metrics = Failed ''refused''\<rparr> (AGENTS ! 0)
        (snd (emergency_stop_agent True 5 ''cost-optimizer'' empty_guardian)))
        ''cost-optimizer'') = Some Stopped"
    by (simp add: agents_check_agent_behavior agents_emergency_stop_agent AGENTS_def)
  show ?thesis
    using reg mem nm ty lim other
      stopped_is_overwritten [where enabled = True and a = "''cost-optimizer''" and now = 5
        and g = empty_guardian and ag = "AGENTS ! 1"
        and p = "\<lparr>health = Failed ''refused'', deployments = Failed ''refused'',
          costs_daily = Failed ''refused'', metrics = Failed ''refused''\<rparr>"]
      stopped_is_overwritten [where now = 6 and ag = "AGENTS ! 1"
        and g = "snd (emergency_stop_agent True 5 ''cost-optimizer'' empty_guardian)"
        and p = "\<lparr>health = Failed ''refused'', deployments = Failed ''refused'',
          costs_daily = Failed ''refused'', metrics = Failed ''refused''\<rparr>"]
      stopped_is_overwritten [where now = 6 and ag = "AGENTS ! 1"
        and g = "snd (emergency_stop_agent True 5 ''cost-optimizer'' empty_guardian)"
        and p = "\<lparr>health = Reply 200 (), deployments = Reply 200 [],
          costs_daily = Reply 200 3, metrics = Reply 200 0\<rparr>"
        and probes = "\<lambda>x. \<lparr>health = Reply 200 (), deployments = Reply 200 [],
          costs_daily = Reply 200 3, metrics = Reply 200 0\<rparr>"]
    by simp
qed

text \<open>
  C1 as stated fails: after a stop of \<^verbatim>\<open>cost-optimizer\<close> its status is stopped, and
  the next monitoring pass overwrites it, with healthy when the agent answers 200 and
  violates no policy, and with suspicious when it does not answer.
\<close>

theorem stopped_terminal_counterexample:
  "map_option agent_status (agents (run_operations
       [Stop True 5 ''cost-optimizer''] empty_guardian) ''cost-optimizer'')
     = Some Stopped \<and>
   map_option agent_status (agents (run_operations
       [Stop True 5 ''cost-optimizer'',
        Pass 6 (\<lambda>a. \<lparr>health = Reply 200 (), deployments = Reply 200 [],
                      costs_daily = Reply 200 0, metrics = Reply 200 0\<rparr>)]
       empty_guardian) ''cost-optimizer'')
     = Some Healthy \<and>
   map_option agent_status (agents (run_operations
       [Stop True 5 ''cost-optimizer'',
        Pass 6 (\<lambda>a. \<lparr>health = Failed ''refused'', deployments = Failed ''refused'',
                      costs_daily = Failed ''refused'', metrics = Failed ''refused''\<rparr>)]
       empty_guardian) ''cost-optimizer'')
     = Some Suspicious"
  by (simp add: run_operations_def agents_perform_agent_monitoring
      agents_emergency_stop_agent AGENTS_def)


lemma pairs_apply_operation:
  assumes "\<And>n r. agents g n = Some r \<Longrightarrow>
             (agent_status r, threat_level r) \<in>
               {(Healthy, Low), (Suspicious, High), (Stopped, Critical)}"
    and "agents (apply_operation op g) n = Some r"
  shows "(agent_status r, threat_level r) \<in>
           {(Healthy, Low), (Suspicious, High), (Stopped, Critical)}"
proof (cases op)
  case (Stop enabled now a)
  with assms(2) show ?thesis
    using assms(1) [of n r]
    by (auto simp: agents_emergency_stop_agent split: if_splits)
next
  case (Check now p a)
  with assms(2) show ?thesis
    using assms(1) [of n r]
    by (auto simp: agents_check_agent_behavior split: if_splits)
next
  case (Pass now probes)
  with assms(2) show ?thesis
    using assms(1) [of n r]
    by (auto simp: agents_perform_agent_monitoring split: if_splits)
qed

lemma pairs_run_operations:
  "(\<And>n r. agents g n = Some r \<Longrightarrow>
      (agent_status r, threat_level r) \<in>
        {(Healthy, Low), (Suspicious, High), (Stopped, Critical)}) \<Longrightarrow>
   agents (run_operations ops g) n = Some r \<Longrightarrow>
   (agent_status r, threat_level r) \<in>
     {(Healthy, Low), (Suspicious, High), (Stopped, Critical)}"
proof (induction ops arbitrary: g)
  case Nil
  then show ?case by (simp add: run_operations_def)
next
  case (Cons op ops)
  have step: "(agent_status r', threat_level r') \<in>
                {(Healthy, Low), (Suspicious, High), (Stopped, Critical)}"
    if "agents (apply_operation op g) m = Some r'" for m r'
    using Cons.prems(1) that by (rule pairs_apply_operation)
  from Cons.prems(2) have "agents (run_operations ops (apply_operation op g)) n = Some r"
    by (simp add: run_operations_def)
  with step show ?case by (rule Cons.IH)
qed

text \<open>
  C2, as the code has it. In every store reached from the empty one by any run of
  stops, checks and passes, the threat level of an agent's record is critical exactly
  when its status is stopped, high exactly when it is suspicious, and low exactly when
  it is healthy.
\<close>

theorem threat_level_of_status:
  assumes "agents (run_operations ops empty_guardian) n = Some r"
  shows "(threat_level r = Critical \<longleftrightarrow> agent_status r = Stopped) \<and>
         (threat_level r = High \<longleftrightarrow> agent_status r = Suspicious) \<and>
         (threat_level r = Low \<longleftrightarrow> agent_status r = Healthy)"
proof -
  have "(agent_status r, threat_level r) \<in>
          {(Healthy, Low), (Suspicious, High), (Stopped, Critical)}"
    by (rule pairs_run_operations [OF _ assms]) (simp add: empty_guardian_def)
  then show ?thesis by auto
qed

theorem threat_level_of_status_witness:
  "agents (run_operations [Stop True 5 ''cost-optimizer''] empty_guardian) ''cost-optimizer''
     = Some \<lparr>agent_status = Stopped, agent_last_check = 5, threat_level = Critical\<rparr> \<and>
   (threat_level \<lparr>agent_status = Stopped, agent_last_check = 5, threat_level = Critical\<rparr>
      = Critical) = (agent_status \<lparr>agent_status = Stopped, agent_last_check = 5,
        threat_level = Critical\<rparr> = Stopped)"
proof -
  have run: "agents (run_operations [Stop True 5 ''cost-optimizer''] empty_guardian)
               ''cost-optimizer''
     = Some \<lparr>agent_status = Stopped, agent_last_check = 5, threat_level = Critical\<rparr>"
    by (simp add: run_operations_def agents_emergency_stop_agent AGENTS_def
        empty_guardian_def)
  show ?thesis using threat_level_of_status [OF run] run by simp
qed

text \<open>
  C2 as stated fails: \<^verbatim>\<open>flag_suspicious_behavior\<close> writes the status suspicious with
  the threat level high, not critical.
\<close>

theorem suspicious_threat_counterexample:
  "map_option agent_status (agents (run_operations
       [Check 5 \<lparr>health = Failed ''timeout'', deployments = Failed ''timeout'',
                 costs_daily = Failed ''timeout'', metrics = Failed ''timeout''\<rparr>
          (hd AGENTS)] empty_guardian) ''deployment-coordinator'') = Some Suspicious \<and>
   map_option threat_level (agents (run_operations
       [Check 5 \<lparr>health = Failed ''timeout'', deployments = Failed ''timeout'',
                 costs_daily = Failed ''timeout'', metrics = Failed ''timeout''\<rparr>
          (hd AGENTS)] empty_guardian) ''deployment-coordinator'') = Some High \<and>
   High \<noteq> Critical"
  by (simp add: run_operations_def check_agent_behavior_def flag_suspicious_behavior_def
      send_guardian_alert_def AGENTS_def empty_guardian_def)

text \<open>
  C9. With the emergency stop disabled, \<^verbatim>\<open>POST /stop/{name}\<close> raises 403 for every
  name; enabled, with a name of no registered agent, it raises 404; in both cases the
  state (records, violations, alerts) is the one before the call.
\<close>

theorem stop_rejected:
  "(\<not> enabled \<longrightarrow>
      emergency_stop_agent enabled now a g =
        (Inl (HTTPException 403 ''Emergency stop disabled''), g)) \<and>
   (enabled \<and> a \<notin> agent_name ` set AGENTS \<longrightarrow>
      emergency_stop_agent enabled now a g =
        (Inl (HTTPException 404 ''Agent not found''), g))"
proof -
  have "find (\<lambda>x. agent_name x = a) AGENTS = None" if "a \<notin> agent_name ` set AGENTS"
    using that by (auto simp: find_None_iff)
  then show ?thesis by (auto simp: emergency_stop_agent_def)
qed

theorem stop_rejected_witness:
  "emergency_stop_agent False 9 ''agent-x''
      (run_operations [Stop True 5 ''cost-optimizer''] empty_guardian)
     = (Inl (HTTPException 403 ''Emergency stop disabled''),
        run_operations [Stop True 5 ''cost-optimizer''] empty_guardian) \<and>
   ''ghost-agent'' \<notin> agent_name ` set AGENTS \<and>
   emergency_stop_agent True 9 ''ghost-agent''
      (run_operations [Stop True 5 ''cost-optimizer''] empty_guardian)
     = (Inl (HTTPException 404 ''Agent not found''),
        run_operations [Stop True 5 ''cost-optimizer''] empty_guardian)"
proof -
  have ghost: "''ghost-agent'' \<notin> agent_name ` set AGENTS"
    by (simp add: AGENTS_def)
  show ?thesis
    using ghost
      stop_rejected [of False 9 "''agent-x''"
        "run_operations [Stop True 5 ''cost-optimizer''] empty_guardian"]
      stop_rejected [of True 9 "''ghost-agent''"
        "run_operations [Stop True 5 ''cost-optimizer''] empty_guardian"]
    by simp
qed

text \<open>
  C3, evaluated. The orchestration agent answers its liveness probe with 200 and
  reports eleven deployments started within the last hour. The pass records exactly
  one violation, \<^verbatim>\<open>max_deployments_per_hour\<close> with severity critical, and sends the
  alert of the suspicious flag; at the end of the pass the agent's record is healthy
  with threat level low, the flag having been overwritten by the write that the
  source comments with "Mark as healthy if no violations".
\<close>

theorem deployment_rate_pass_ends_healthy:
  "map policy (violations (perform_agent_monitoring 1700000000000000
       (\<lambda>a. \<lparr>health = Reply 200 (),
              deployments = Reply 200
         [Started_at 1699999000000000,
          Started_at 1699999060000000,
          Started_at 1699999120000000,
          Started_at 1699999180000000,
          Started_at 1699999240000000,
          Started_at 1699999300000000,
          Started_at 1699999360000000,
          Started_at 1699999420000000,
          Started_at 1699999480000000,
          Started_at 1699999540000000,
          Started_at 1699999600000000],
              costs_daily = Reply 200 0, metrics = Reply 200 0\<rparr>)
       empty_guardian) ''deployment-coordinator'')
     = [''max_deployments_per_hour''] \<and>
   map severity (violations (perform_agent_monitoring 1700000000000000
       (\<lambda>a. \<lparr>health = Reply 200 (),
              deployments = Reply 200
         [Started_at 1699999000000000,
          Started_at 1699999060000000,
          Started_at 1699999120000000,
          Started_at 1699999180000000,
          Started_at 1699999240000000,
          Started_at 1699999300000000,
          Started_at 1699999360000000,
          Started_at 1699999420000000,
          Started_at 1699999480000000,
          Started_at 1699999540000000,
          Started_at 1699999600000000],
              costs_daily = Reply 200 0, metrics = Reply 200 0\<rparr>)
       empty_guardian) ''deployment-coordinator'')
     = [''critical''] \<and>
   map fst (alerts (perform_agent_monitoring 1700000000000000
       (\<lambda>a. \<lparr>health = Reply 200 (),
              deployments = Reply 200
         [Started_at 1699999000000000,
          Started_at 1699999060000000,
          Started_at 1699999120000000,
          Started_at 1699999180000000,
          Started_at 1699999240000000,
          Started_at 1699999300000000,
          Started_at 1699999360000000,
          Started_at 1699999420000000,
          Started_at 1699999480000000,
          Started_at 1699999540000000,
          Started_at 1699999600000000],
              costs_daily = Reply 200 0, metrics = Reply 200 0\<rparr>)
       empty_guardian))
     = [Suspicious_behavior ''deployment-coordinator'' (Deployment_rate_exceeded 11)] \<and>
   agents (perform_agent_monitoring 1700000000000000
       (\<lambda>a. \<lparr>health = Reply 200 (),
              deployments = Reply 200
         [Started_at 1699999000000000,
          Started_at 1699999060000000,
          Started_at 1699999120000000,
          Started_at 1699999180000000,
          Started_at 1699999240000000,
          Started_at 1699999300000000,
          Started_at 1699999360000000,
          Started_at 1699999420000000,
          Started_at 1699999480000000,
          Started_at 1699999540000000,
          Started_at 1699999600000000],
              costs_daily = Reply 200 0, metrics = Reply 200 0\<rparr>)
       empty_guardian) ''deployment-coordinator''
     = Some \<lparr>agent_status = Healthy, agent_last_check = 1700000000000000,
             threat_level = Low\<rparr>"
  by (simp add: perform_agent_monitoring_def AGENTS_def check_agent_behavior_def
      check_deployment_policies_def check_cost_policies_def check_monitoring_policies_def
      flag_suspicious_behavior_def send_guardian_alert_def log_violation_def
      fromisoformat_def hours_def max_deployments_per_hour_def max_cost_per_day_def
      max_failed_health_checks_def Let_def lpush_def ltrim_def empty_guardian_def)

end
